theory Spec2Isabelle
  imports Main
begin

section \<open>JavaScript values\<close>

text \<open>
  The request body is what \<^verbatim>\<open>bodyParser.json()\<close> produced: a JSON value. The keys of a
  \<open>JObj\<close> are kept in insertion order and are distinct, as in an object made by
  \<^verbatim>\<open>JSON.parse\<close>. Numbers are the integer-valued ones. A JavaScript string is a
  \<open>string\<close>, one character for each code unit (the examples are ASCII); where the code
  turns a string into bytes, the encoder is a parameter. A JavaScript value read from the
  body is a \<open>json option\<close>, where \<open>None\<close> is \<^verbatim>\<open>undefined\<close>.
\<close>

datatype json =
    JNull
  | JBool bool
  | JNum int
  | JStr string
  | JArr "json list"
  | JObj "(string \<times> json) list"

type_synonym jsval = "json option"

text \<open>Exceptions of the handler, and the two ways a block is left early.\<close>

datatype exn = TypeError | TranslateError | WhatsAppApiError

datatype interrupt = Returned | Thrown exn

text \<open>
  \<^verbatim>\<open>v.k\<close> for the property names the handler reads (none of them is \<^verbatim>\<open>length\<close> or a
  method name): reading a property of \<^verbatim>\<open>undefined\<close> or \<^verbatim>\<open>null\<close> throws a TypeError,
  an object gives the stored value or \<^verbatim>\<open>undefined\<close>, every other value gives
  \<^verbatim>\<open>undefined\<close>.
\<close>

fun read_prop :: "jsval \<Rightarrow> string \<Rightarrow> interrupt + jsval" where
  "read_prop None k = Inl (Thrown TypeError)"
| "read_prop (Some JNull) k = Inl (Thrown TypeError)"
| "read_prop (Some (JObj kvs)) k = Inr (map_of kvs k)"
| "read_prop (Some v) k = Inr None"

text \<open>\<^verbatim>\<open>v[0]\<close>: the first element of an array, the first character of a string.\<close>

fun index0 :: "jsval \<Rightarrow> interrupt + jsval" where
  "index0 None = Inl (Thrown TypeError)"
| "index0 (Some JNull) = Inl (Thrown TypeError)"
| "index0 (Some (JArr xs)) = Inr (case xs of [] \<Rightarrow> None | x # _ \<Rightarrow> Some x)"
| "index0 (Some (JStr s)) = Inr (case s of [] \<Rightarrow> None | c # _ \<Rightarrow> Some (JStr [c]))"
| "index0 (Some (JObj kvs)) = Inr (map_of kvs ''0'')"
| "index0 (Some v) = Inr None"

text \<open>The truth value of \<^verbatim>\<open>if (v)\<close>.\<close>

fun truthy :: "jsval \<Rightarrow> bool" where
  "truthy None = False"
| "truthy (Some JNull) = False"
| "truthy (Some (JBool b)) = b"
| "truthy (Some (JNum n)) = (n \<noteq> 0)"
| "truthy (Some (JStr s)) = (s \<noteq> [])"
| "truthy (Some (JArr xs)) = True"
| "truthy (Some (JObj kvs)) = True"

subsection \<open>\<^verbatim>\<open>JSON.stringify\<close>\<close>

fun digits :: "nat \<Rightarrow> string" where
  "digits n =
     (if n < 10 then [char_of (48 + n)]
      else digits (n div 10) @ [char_of (48 + n mod 10)])"

fun join :: "string \<Rightarrow> string list \<Rightarrow> string" where
  "join sep [] = []"
| "join sep [x] = x"
| "join sep (x # y # ys) = x @ sep @ join sep (y # ys)"

definition hexdigit :: "nat \<Rightarrow> char" where
  "hexdigit n = (if n < 10 then char_of (48 + n) else char_of (87 + n))"

text \<open>
  The escapes of \<^verbatim>\<open>JSON.stringify\<close>: the double quote (0x22), the backslash (0x5C) and
  the control characters; every other character is copied.
\<close>

definition escape_char :: "char \<Rightarrow> string" where
  "escape_char c =
     (if c = CHR 0x22 then [CHR 0x5C, CHR 0x22]
      else if c = CHR 0x5C then [CHR 0x5C, CHR 0x5C]
      else if c = CHR 0x08 then [CHR 0x5C, CHR ''b'']
      else if c = CHR 0x0C then [CHR 0x5C, CHR ''f'']
      else if c = CHR 0x0A then [CHR 0x5C, CHR ''n'']
      else if c = CHR 0x0D then [CHR 0x5C, CHR ''r'']
      else if c = CHR 0x09 then [CHR 0x5C, CHR ''t'']
      else if (of_char c :: nat) < 32
        then [CHR 0x5C, CHR ''u'', CHR ''0'', CHR ''0'',
              hexdigit (of_char c div 16), hexdigit (of_char c mod 16)]
      else [c])"

definition quote :: "string \<Rightarrow> string" where
  "quote s = CHR 0x22 # concat (map escape_char s) @ [CHR 0x22]"

fun JSON_stringify :: "json \<Rightarrow> string" where
  "JSON_stringify JNull = ''null''"
| "JSON_stringify (JBool b) = (if b then ''true'' else ''false'')"
| "JSON_stringify (JNum n) = (if n < 0 then CHR ''-'' # digits (nat (- n)) else digits (nat n))"
| "JSON_stringify (JStr s) = quote s"
| "JSON_stringify (JArr xs) = ''['' @ join '','' (map JSON_stringify xs) @ '']''"
| "JSON_stringify (JObj kvs) =
     ''{'' @ join '','' (map (\<lambda>(k, v). quote k @ '':'' @ JSON_stringify v) kvs) @ ''}''"

section \<open>Configuration, request and collaborators\<close>

text \<open>
  The configuration the handler reads: three environment variables and the constant
  \<^verbatim>\<open>DEBUG\<close>. The source fixes \<^verbatim>\<open>const DEBUG = true\<close> ("Force debug mode regardless of
  \<^verbatim>\<open>NODE_ENV\<close>"); it is a field here so that the branches it guards can be stated, and
  \<open>source_config\<close> below is the configuration with the value of the source.
\<close>

record config =
  NODE_ENV :: string
  DEBUG :: bool
  WHATSAPP_TOKEN :: string
  ALLOWED_PHONE_NUMBERS_env :: "string option"

definition source_config :: "string \<Rightarrow> string \<Rightarrow> string option \<Rightarrow> config" where
  "source_config node_env token allowed =
     \<lparr>NODE_ENV = node_env, DEBUG = True, WHATSAPP_TOKEN = token,
      ALLOWED_PHONE_NUMBERS_env = allowed\<rparr>"

definition isTestEnvironment :: "config \<Rightarrow> bool" where
  "isTestEnvironment c = (NODE_ENV c = ''development'')"

text \<open>
  A request as the handler sees it: the \<^verbatim>\<open>x-hub-signature-256\<close> header and the parsed
  body. \<open>rawBody\<close> is the byte sequence that arrived on the wire, from which
  \<^verbatim>\<open>bodyParser.json()\<close> made \<open>body\<close>; the handler has no access to it.
\<close>

record request =
  signature_header :: "string option"
  rawBody :: string
  body :: json

text \<open>
  What lies outside the repository: the translation service, the WhatsApp send endpoint
  (\<open>None\<close> when the call succeeded, the error otherwise), the digest
  \<^verbatim>\<open>createHmac('sha256', key).update(bytes).digest('hex')\<close> and the UTF-8 encoder of the
  runtime.
\<close>

record deps =
  translate_api :: "jsval \<Rightarrow> exn + string"
  whatsapp_api :: "jsval \<Rightarrow> jsval \<Rightarrow> string \<Rightarrow> exn option"
  hmac_sha256_hex :: "string \<Rightarrow> string \<Rightarrow> string"
  utf8 :: "string \<Rightarrow> string"

section \<open>Effects\<close>

text \<open>
  What a run of the handler does, in order: the HTTP acknowledgement
  \<^verbatim>\<open>res.status(200).send('OK')\<close>, the log lines that tell the branches apart, the calls
  of \<^verbatim>\<open>translate.translate\<close> and the requests of \<^verbatim>\<open>sendMessage\<close> to the WhatsApp API.
\<close>

datatype event =
    Ack
  | Log string
  | Translate jsval
  | Send jsval jsval string

type_synonym 'a comp = "event list \<times> (interrupt + 'a)"

definition ret :: "'a \<Rightarrow> 'a comp" where
  "ret x = ([], Inr x)"

definition emit :: "event \<Rightarrow> unit comp" where
  "emit e = ([e], Inr ())"

definition throw :: "exn \<Rightarrow> 'a comp" where
  "throw e = ([], Inl (Thrown e))"

definition early_return :: "'a comp" where
  "early_return = ([], Inl Returned)"

definition lift :: "interrupt + 'a \<Rightarrow> 'a comp" where
  "lift r = ([], r)"

fun bind :: "'a comp \<Rightarrow> ('a \<Rightarrow> 'b comp) \<Rightarrow> 'b comp" where
  "bind (tr, Inl i) f = (tr, Inl i)"
| "bind (tr, Inr x) f = (case f x of (tr', r) \<Rightarrow> (tr @ tr', r))"

text \<open>\<^verbatim>\<open>try { m } catch (error) { h }\<close>: a \<^verbatim>\<open>return\<close> inside \<open>m\<close> is not caught.\<close>

fun try_catch :: "'a comp \<Rightarrow> (exn \<Rightarrow> 'a comp) \<Rightarrow> 'a comp" where
  "try_catch (tr, Inl (Thrown e)) h = (case h e of (tr', r) \<Rightarrow> (tr @ tr', r))"
| "try_catch (tr, r) h = (tr, r)"

section \<open>Start-up: the allow-list\<close>

text \<open>
  \<^verbatim>\<open>process.env.ALLOWED_PHONE_NUMBERS?.split(',').map(num => ...) || []\<close>: each entry
  loses its non-digits (\<^verbatim>\<open>num.replace(/\D/g, '')\<close>) and gets a leading \<^verbatim>\<open>1\<close> unless it
  starts with one.
\<close>

fun split_comma :: "string \<Rightarrow> string list" where
  "split_comma [] = [[]]"
| "split_comma (c # cs) =
     (if c = CHR '','' then [] # split_comma cs
      else (case split_comma cs of [] \<Rightarrow> [[c]] | w # ws \<Rightarrow> (c # w) # ws))"

definition is_digit :: "char \<Rightarrow> bool" where
  "is_digit c = (c \<in> set ''0123456789'')"

definition startsWith1 :: "string \<Rightarrow> bool" where
  "startsWith1 s = (case s of [] \<Rightarrow> False | c # _ \<Rightarrow> c = CHR ''1'')"

definition normalize_num :: "string \<Rightarrow> string" where
  "normalize_num num =
     (let cleaned = filter is_digit num
      in if startsWith1 cleaned then cleaned else CHR ''1'' # cleaned)"

definition ALLOWED_PHONE_NUMBERS :: "config \<Rightarrow> string list" where
  "ALLOWED_PHONE_NUMBERS c =
     (case ALLOWED_PHONE_NUMBERS_env c of
        None \<Rightarrow> []
      | Some s \<Rightarrow> map normalize_num (split_comma s))"

text \<open>\<^verbatim>\<open>xs.includes(v)\<close> on an array of strings: only an equal string is found.\<close>

definition array_includes :: "string list \<Rightarrow> jsval \<Rightarrow> bool" where
  "array_includes xs v = (case v of Some (JStr s) \<Rightarrow> s \<in> set xs | _ \<Rightarrow> False)"

section \<open>Request validation\<close>

text \<open>
  The chains \<^verbatim>\<open>body(path).exists()\<close> of express-validator. A path selects field
  instances: a name goes one property down without throwing (\<^verbatim>\<open>undefined\<close> below
  \<^verbatim>\<open>undefined\<close> or \<^verbatim>\<open>null\<close>), a \<^verbatim>\<open>*\<close> stands for every key of an array or object and
  selects nothing below any other value. \<^verbatim>\<open>exists()\<close> fails on an instance that is
  \<^verbatim>\<open>undefined\<close> and passes on every other value, \<^verbatim>\<open>null\<close> and the empty string
  included.
\<close>

datatype seg = Key string | Wildcard

definition get_step :: "jsval \<Rightarrow> string \<Rightarrow> jsval" where
  "get_step v k = (case read_prop v k of Inl _ \<Rightarrow> None | Inr x \<Rightarrow> x)"

fun select_fields :: "seg list \<Rightarrow> jsval \<Rightarrow> jsval list" where
  "select_fields [] v = [v]"
| "select_fields (Key k # p) v = select_fields p (get_step v k)"
| "select_fields (Wildcard # p) v =
     (case v of
        Some (JArr xs) \<Rightarrow> concat (map (\<lambda>x. select_fields p (Some x)) xs)
      | Some (JObj kvs) \<Rightarrow> concat (map (\<lambda>kv. select_fields p (Some (snd kv))) kvs)
      | _ \<Rightarrow> [])"

definition body_exists :: "seg list \<Rightarrow> request \<Rightarrow> bool" where
  "body_exists p r = list_all (\<lambda>v. v \<noteq> None) (select_fields p (Some (body r)))"

definition path_text_body :: "seg list" where
  "path_text_body =
     [Key ''entry'', Wildcard, Key ''changes'', Wildcard, Key ''value'', Key ''messages'',
      Wildcard, Key ''text'', Key ''body'']"

definition path_phone_number_id :: "seg list" where
  "path_phone_number_id =
     [Key ''entry'', Wildcard, Key ''changes'', Wildcard, Key ''value'', Key ''metadata'',
      Key ''phone_number_id'']"

definition path_from :: "seg list" where
  "path_from =
     [Key ''entry'', Wildcard, Key ''changes'', Wildcard, Key ''value'', Key ''messages'',
      Wildcard, Key ''from'']"

text \<open>\<^verbatim>\<open>validationResult(req).isEmpty()\<close> for the five chains of the route.\<close>

definition validation_ok :: "request \<Rightarrow> bool" where
  "validation_ok r =
     (body_exists [Key ''object''] r \<and>
      body_exists path_text_body r \<and>
      body_exists path_phone_number_id r \<and>
      body_exists path_from r \<and>
      signature_header r \<noteq> None)"

section \<open>Signature verification\<close>

text \<open>
  \<^verbatim>\<open>hmac.update(data)\<close> takes a string, which it encodes as UTF-8, or a Buffer, whose
  bytes it takes as they are; \<^verbatim>\<open>Buffer.from(string)\<close> is the UTF-8 encoding of the string.
\<close>

datatype hmac_data = StringData string | BufferData string

definition Buffer_from :: "deps \<Rightarrow> string \<Rightarrow> hmac_data" where
  "Buffer_from d s = BufferData (utf8 d s)"

fun update_bytes :: "deps \<Rightarrow> hmac_data \<Rightarrow> string" where
  "update_bytes d (StringData s) = utf8 d s"
| "update_bytes d (BufferData b) = b"

definition hmac_digest_hex :: "deps \<Rightarrow> string \<Rightarrow> hmac_data \<Rightarrow> string" where
  "hmac_digest_hex d key data = hmac_sha256_hex d key (update_bytes d data)"

definition bodyString :: "request \<Rightarrow> string" where
  "bodyString r = JSON_stringify (body r)"

definition expectedSignature1 :: "deps \<Rightarrow> config \<Rightarrow> request \<Rightarrow> string" where
  "expectedSignature1 d c r = hmac_digest_hex d (WHATSAPP_TOKEN c) (StringData (bodyString r))"

definition expectedSignature2 :: "deps \<Rightarrow> config \<Rightarrow> request \<Rightarrow> string" where
  "expectedSignature2 d c r =
     hmac_digest_hex d (WHATSAPP_TOKEN c) (Buffer_from d (bodyString r))"

text \<open>The test of line 189, on the header value \<open>signature\<close>.\<close>

definition signature_matches :: "deps \<Rightarrow> config \<Rightarrow> request \<Rightarrow> string \<Rightarrow> bool" where
  "signature_matches d c r signature =
     (signature = ''sha256='' @ expectedSignature1 d c r \<or>
      signature = ''sha256='' @ expectedSignature2 d c r)"

text \<open>
  The signature block (lines 154 to 206). \<^verbatim>\<open>!signature\<close> holds when the header is absent
  or the empty string. Nothing inside the \<^verbatim>\<open>try\<close> throws on a parsed body, so its
  \<^verbatim>\<open>catch\<close> has no run; each \<^verbatim>\<open>return\<close> leaves the handler.
\<close>

definition missing_signature :: "config \<Rightarrow> unit comp" where
  "missing_signature c =
     (if DEBUG c then emit (Log ''Missing signature, but continuing due to DEBUG mode'')
      else bind (emit (Log ''Missing signature'')) (\<lambda>_. early_return))"

definition signature_verification :: "deps \<Rightarrow> config \<Rightarrow> request \<Rightarrow> unit comp" where
  "signature_verification d c r =
     (if NODE_ENV c = ''production'' \<and> \<not> isTestEnvironment c then
        (case signature_header r of
           None \<Rightarrow> missing_signature c
         | Some signature \<Rightarrow>
             if signature = [] then missing_signature c
             else if signature_matches d c r signature then
               emit (Log ''Signature verified successfully'')
             else if DEBUG c then
               emit (Log ''Invalid signature received, but continuing due to DEBUG mode'')
             else bind (emit (Log ''Invalid signature received'')) (\<lambda>_. early_return))
      else ret ())"

section \<open>The handler of \<^verbatim>\<open>POST /webhook\<close>\<close>

text \<open>
  \<^verbatim>\<open>sendMessage\<close>: one request to the WhatsApp API; a failed request (a network error or
  a response that is not ok) is logged and thrown again.
\<close>

definition sendMessage :: "deps \<Rightarrow> jsval \<Rightarrow> jsval \<Rightarrow> string \<Rightarrow> unit comp" where
  "sendMessage d phone_number_id to message =
     try_catch
       (bind (emit (Send phone_number_id to message)) (\<lambda>_.
          case whatsapp_api d phone_number_id to message of
            None \<Rightarrow> ret ()
          | Some error \<Rightarrow> throw error))
       (\<lambda>error. bind (emit (Log ''Error sending message:'')) (\<lambda>_. throw error))"

definition translate :: "deps \<Rightarrow> jsval \<Rightarrow> string comp" where
  "translate d msg_body =
     bind (emit (Translate msg_body)) (\<lambda>_.
       case translate_api d msg_body of
         Inl error \<Rightarrow> throw error
       | Inr translation \<Rightarrow> ret translation)"

definition restricted_text :: string where
  "restricted_text =
     ''Sorry, this translation service is currently restricted to authorized users only.''"

text \<open>Lines 241 to 259: the inner \<^verbatim>\<open>try\<close> around translation and reply.\<close>

definition translate_and_reply :: "deps \<Rightarrow> jsval \<Rightarrow> jsval \<Rightarrow> jsval \<Rightarrow> unit comp" where
  "translate_and_reply d val message from =
     try_catch
       (bind (lift (read_prop val ''metadata'')) (\<lambda>metadata.
        bind (lift (read_prop metadata ''phone_number_id'')) (\<lambda>phone_number_id.
        bind (lift (read_prop message ''text'')) (\<lambda>text.
        bind (lift (read_prop text ''body'')) (\<lambda>msg_body.
        bind (translate d msg_body) (\<lambda>translation.
        bind (sendMessage d phone_number_id from (''Translated text: '' @ translation)) (\<lambda>_.
        emit (Log ''Translation successful:''))))))))
       (\<lambda>error. emit (Log ''Translation error:''))"

text \<open>
  The sender check of lines 226 to 239, as its three outcomes: on the list; not on the
  list and \<^verbatim>\<open>DEBUG\<close> off (the courtesy reply); not on the list and \<^verbatim>\<open>DEBUG\<close> on (logged as
  bypassed, then handled like a sender on the list).
\<close>

datatype AuthorizationDecision = Allowed | Bypassed | Denied

definition authorize :: "config \<Rightarrow> jsval \<Rightarrow> AuthorizationDecision" where
  "authorize c from =
     (if \<not> array_includes (ALLOWED_PHONE_NUMBERS c) from \<and> \<not> DEBUG c then Denied
      else if \<not> array_includes (ALLOWED_PHONE_NUMBERS c) from then Bypassed
      else Allowed)"

text \<open>Lines 217 to 263: a message, a status update, or neither.\<close>

definition handle_value :: "deps \<Rightarrow> config \<Rightarrow> jsval \<Rightarrow> unit comp" where
  "handle_value d c val =
     bind (lift (read_prop val ''messages'')) (\<lambda>messages.
       if truthy messages then
         bind (lift (index0 messages)) (\<lambda>message.
         bind (lift (read_prop message ''from'')) (\<lambda>from.
           case authorize c from of
             Denied \<Rightarrow>
               bind (emit (Log ''Unauthorized phone number attempted to use bot'')) (\<lambda>_.
               bind (lift (read_prop val ''metadata'')) (\<lambda>metadata.
               bind (lift (read_prop metadata ''phone_number_id'')) (\<lambda>phone_number_id.
               bind (sendMessage d phone_number_id from restricted_text) (\<lambda>_.
               early_return))))
           | Bypassed \<Rightarrow>
               bind (emit (Log ''Unauthorized phone number bypassed in DEBUG mode'')) (\<lambda>_.
               translate_and_reply d val message from)
           | Allowed \<Rightarrow> translate_and_reply d val message from))
       else
         bind (lift (read_prop val ''statuses'')) (\<lambda>statuses.
           if truthy statuses then emit (Log ''Received status update:'') else ret ()))"

text \<open>\<^verbatim>\<open>req.body.entry[0].changes[0].value\<close>, as lines 209 to 211 read it.\<close>

fun and_then :: "interrupt + 'a \<Rightarrow> ('a \<Rightarrow> interrupt + 'b) \<Rightarrow> interrupt + 'b" where
  "and_then (Inl i) f = Inl i"
| "and_then (Inr x) f = f x"

definition first_value :: "json \<Rightarrow> interrupt + jsval" where
  "first_value b =
     and_then (read_prop (Some b) ''entry'') (\<lambda>entries.
     and_then (index0 entries) (\<lambda>entry.
     and_then (read_prop entry ''changes'') (\<lambda>changes_list.
     and_then (index0 changes_list) (\<lambda>changes.
     read_prop changes ''value''))))"

text \<open>The body of the outer \<^verbatim>\<open>try\<close> (lines 130 to 269).\<close>

definition object_is_whatsapp :: "request \<Rightarrow> bool" where
  "object_is_whatsapp r =
     (read_prop (Some (body r)) ''object'' = Inr (Some (JStr ''whatsapp_business_account'')))"

definition process_webhook :: "deps \<Rightarrow> config \<Rightarrow> request \<Rightarrow> unit comp" where
  "process_webhook d c r =
     (if \<not> validation_ok r then
        bind (emit (Log ''Validation failed'')) (\<lambda>_. early_return)
      else
        bind (signature_verification d c r) (\<lambda>_.
        bind (if object_is_whatsapp r
              then bind (lift (first_value (body r))) (\<lambda>val. handle_value d c val)
              else emit (Log ''Invalid request format'')) (\<lambda>_.
        emit (Log ''Processing completed successfully''))))"

text \<open>
  The handler: the acknowledgement, then the outer \<^verbatim>\<open>try\<close> and its \<^verbatim>\<open>catch\<close>. The result
  is the events in order and the exception that leaves the handler, if one does.
\<close>

fun settle :: "unit comp \<Rightarrow> event list \<times> exn option" where
  "settle (tr, Inl (Thrown e)) = (tr, Some e)"
| "settle (tr, _) = (tr, None)"

definition webhook_post :: "deps \<Rightarrow> config \<Rightarrow> request \<Rightarrow> event list \<times> exn option" where
  "webhook_post d c r =
     settle
       (bind (emit Ack) (\<lambda>_.
          try_catch (process_webhook d c r)
            (\<lambda>error. emit (Log ''Error processing webhook:''))))"

section \<open>Observations on a run\<close>

fun is_translate :: "event \<Rightarrow> bool" where
  "is_translate (Translate m) = True"
| "is_translate e = False"

fun is_send :: "event \<Rightarrow> bool" where
  "is_send (Send p t b) = True"
| "is_send e = False"

definition translate_calls :: "event list \<Rightarrow> event list" where
  "translate_calls tr = filter is_translate tr"

definition send_calls :: "event list \<Rightarrow> event list" where
  "send_calls tr = filter is_send tr"

text \<open>The collaborator calls made before the acknowledgement.\<close>

definition calls_before_ack :: "event list \<Rightarrow> event list" where
  "calls_before_ack tr =
     filter (\<lambda>e. is_translate e \<or> is_send e) (takeWhile (\<lambda>e. e \<noteq> Ack) tr)"





section \<open>Example inputs\<close>

text \<open>The envelope that \<^verbatim>\<open>tests/local-test.js\<close> posts, with its three values as parameters.\<close>

definition test_value :: "json \<Rightarrow> json \<Rightarrow> json \<Rightarrow> json" where
  "test_value sender text_body phone_number_id =
     JObj [(''messages'',
              JArr [JObj [(''from'', sender), (''text'', JObj [(''body'', text_body)])]]),
           (''metadata'', JObj [(''phone_number_id'', phone_number_id)])]"

definition test_envelope :: "json \<Rightarrow> json \<Rightarrow> json \<Rightarrow> json" where
  "test_envelope sender text_body phone_number_id =
     JObj [(''object'', JStr ''whatsapp_business_account''),
           (''entry'', JArr [JObj [(''changes'', JArr [JObj [(''value'',
              test_value sender text_body phone_number_id)]])]])]"


definition status_value :: json where
  "status_value =
     JObj [(''statuses'', JArr [JObj [(''status'', JStr ''delivered'')]]),
           (''metadata'', JObj [(''phone_number_id'', JStr ''42'')])]"

definition envelope_of :: "json \<Rightarrow> json" where
  "envelope_of v =
     JObj [(''object'', JStr ''whatsapp_business_account''),
           (''entry'', JArr [JObj [(''changes'', JArr [JObj [(''value'', v)]])]])]"

text \<open>
  Collaborators for the examples: a translation that answers \<open>Hello\<close>, a WhatsApp API
  that accepts every message, and in place of HMAC-SHA256 a keyed function that is
  different on different byte sequences; then the same with a translation that fails,
  and with a WhatsApp API that fails.
\<close>

definition stub_deps :: deps where
  "stub_deps =
     \<lparr>translate_api = (\<lambda>_. Inr ''Hello''),
      whatsapp_api = (\<lambda>_ _ _. None),
      hmac_sha256_hex = (\<lambda>key bytes. key @ ''/'' @ bytes),
      utf8 = (\<lambda>s. s)\<rparr>"



text \<open>
  The configuration of the source in production with one sender on the allow-list, and
  the same with \<^verbatim>\<open>DEBUG\<close> off.
\<close>

definition production_config :: config where
  "production_config = source_config ''production'' ''secret'' (Some ''15551234567'')"

definition strict_config :: config where
  "strict_config = production_config\<lparr>DEBUG := False\<rparr>"

definition request_of :: "string option \<Rightarrow> json \<Rightarrow> request" where
  "request_of header b =
     \<lparr>signature_header = header, rawBody = JSON_stringify b, body = b\<rparr>"

definition message_request :: "string \<Rightarrow> string \<Rightarrow> string \<Rightarrow> request" where
  "message_request signature sender text_body =
     request_of (Some signature) (test_envelope (JStr sender) (JStr text_body) (JStr ''42''))"

text \<open>
  A request whose bytes on the wire have a space after the colon, as many JSON encoders
  write it, signed over those bytes.
\<close>

definition spaced_raw :: string where
  "spaced_raw = ''{'' @ quote ''object'' @ '': '' @ quote ''whatsapp_business_account'' @ ''}''"

definition spaced_request :: request where
  "spaced_request =
     \<lparr>signature_header = Some (''sha256='' @ hmac_sha256_hex stub_deps ''secret'' spaced_raw),
      rawBody = spaced_raw,
      body = JObj [(''object'', JStr ''whatsapp_business_account'')]\<rparr>"


section \<open>Reading a computation\<close>

lemma fst_bind: "fst (bind m f) = fst m @ (case snd m of Inl i \<Rightarrow> [] | Inr x \<Rightarrow> fst (f x))"
  by (cases m; cases "snd m") (auto split: prod.splits)

lemma snd_bind: "snd (bind m f) = (case snd m of Inl i \<Rightarrow> Inl i | Inr x \<Rightarrow> snd (f x))"
  by (cases m; cases "snd m") (auto split: prod.splits)

lemma fst_try_catch:
  "fst (try_catch m h) = fst m @ (case snd m of Inl (Thrown e) \<Rightarrow> fst (h e) | _ \<Rightarrow> [])"
  by (cases "(m, h)" rule: try_catch.cases) (auto split: prod.splits)

lemma snd_try_catch:
  "snd (try_catch m h) = (case snd m of Inl (Thrown e) \<Rightarrow> snd (h e) | r \<Rightarrow> r)"
  by (cases "(m, h)" rule: try_catch.cases) (auto split: prod.splits)

lemma fst_settle: "fst (settle m) = fst m"
  by (cases m rule: settle.cases) auto

lemma snd_settle: "snd (settle m) = (case snd m of Inl (Thrown e) \<Rightarrow> Some e | _ \<Rightarrow> None)"
  by (cases m rule: settle.cases) auto

lemma emit_simps: "fst (emit e) = [e]" "snd (emit e) = Inr ()"
  by (simp_all add: emit_def)

lemma ret_simps: "fst (ret x) = []" "snd (ret x) = Inr x"
  by (simp_all add: ret_def)

lemma lift_simps: "fst (lift v) = []" "snd (lift v) = v"
  by (simp_all add: lift_def)

lemma throw_simps: "fst (throw e) = []" "snd (throw e) = Inl (Thrown e)"
  by (simp_all add: throw_def)

lemma early_return_simps: "fst early_return = []" "snd early_return = Inl Returned"
  by (simp_all add: early_return_def)

lemmas comp_simps = fst_bind snd_bind fst_try_catch snd_try_catch fst_settle snd_settle
  emit_simps ret_simps lift_simps throw_simps early_return_simps

lemma bind_lift_Inr: "bind (lift (Inr x)) f = f x"
  by (cases "f x") (simp add: lift_def)

lemma bind_lift_Inl: "bind (lift (Inl i)) f = ([], Inl i)"
  by (simp add: lift_def)


section \<open>The acknowledgement comes first\<close>

lemma webhook_post_starts_with_ack:
  "fst (webhook_post d c r) =
     Ack # fst (try_catch (process_webhook d c r)
                  (\<lambda>error. emit (Log ''Error processing webhook:'')))"
  by (simp add: webhook_post_def comp_simps)

text \<open>
  C1. For every request that reaches the handler of POST /webhook (its body was parsed as
  JSON), the first thing the handler does is to send the acknowledgement: the run starts
  with \<open>Ack\<close>, and no call of the translation service or of the WhatsApp API comes
  before it.
\<close>

theorem ack_precedes_collaborators:
  "(\<exists>rest. fst (webhook_post d c r) = Ack # rest) \<and>
   calls_before_ack (fst (webhook_post d c r)) = []"
  by (simp add: webhook_post_starts_with_ack calls_before_ack_def)

theorem ack_precedes_collaborators_witness:
  "fst (webhook_post stub_deps production_config
          (message_request ''invalid'' ''15551234567'' ''Hola'')) =
     [Ack,
      Log ''Invalid signature received, but continuing due to DEBUG mode'',
      Translate (Some (JStr ''Hola'')),
      Send (Some (JStr ''42'')) (Some (JStr ''15551234567'')) ''Translated text: Hello'',
      Log ''Translation successful:'',
      Log ''Processing completed successfully''] \<and>
   calls_before_ack
     (fst (webhook_post stub_deps production_config
        (message_request ''invalid'' ''15551234567'' ''Hola''))) = []"
proof -
  have run:
    "fst (webhook_post stub_deps production_config
            (message_request ''invalid'' ''15551234567'' ''Hola'')) =
       [Ack,
        Log ''Invalid signature received, but continuing due to DEBUG mode'',
        Translate (Some (JStr ''Hola'')),
        Send (Some (JStr ''42'')) (Some (JStr ''15551234567'')) ''Translated text: Hello'',
        Log ''Translation successful:'',
        Log ''Processing completed successfully'']"
    by code_simp
  show ?thesis
    using run
      ack_precedes_collaborators
        [of stub_deps production_config "message_request ''invalid'' ''15551234567'' ''Hola''"]
    by simp
qed

section \<open>The two expected signatures\<close>

text \<open>
  C10. For every request body the two expected signatures of the verifier, the digest
  updated with the JSON string (Method 1) and the digest updated with
  \<^verbatim>\<open>Buffer.from\<close> of the same string (Method 2), are equal, so the test that accepts
  either one is the test against a single digest.
\<close>

theorem signature_methods_agree:
  "expectedSignature1 d c r = expectedSignature2 d c r \<and>
   signature_matches d c r signature = (signature = ''sha256='' @ expectedSignature1 d c r)"
  by (auto simp add: expectedSignature1_def expectedSignature2_def hmac_digest_hex_def
      Buffer_from_def signature_matches_def)

section \<open>The signature block\<close>

lemma sigver_result:
  "snd (signature_verification d c r) = Inr () \<or> snd (signature_verification d c r) = Inl Returned"
  by (simp add: signature_verification_def missing_signature_def comp_simps split: option.splits)

lemma sigver_filter:
  assumes "\<And>s. \<not> P (Log s)"
  shows "filter P (fst (signature_verification d c r)) = []"
  using assms
  by (simp add: signature_verification_def missing_signature_def comp_simps split: option.splits)

lemma sigver_debug: "DEBUG c \<Longrightarrow> snd (signature_verification d c r) = Inr ()"
  by (simp add: signature_verification_def missing_signature_def comp_simps split: option.splits)


section \<open>The shape of a run\<close>

lemma webhook_post_filter:
  assumes "\<not> P Ack" and "\<And>s. \<not> P (Log s)"
  shows "filter P (fst (webhook_post d c r)) =
     (if validation_ok r \<and> snd (signature_verification d c r) = Inr () \<and> object_is_whatsapp r
      then (case first_value (body r) of
              Inl i \<Rightarrow> []
            | Inr val \<Rightarrow> filter P (fst (handle_value d c val)))
      else [])"
  using assms sigver_result [of d c r]
  by (auto simp add: webhook_post_def process_webhook_def comp_simps sigver_filter
      split: sum.splits interrupt.splits)

lemma webhook_post_handled:
  assumes "validation_ok r" and "snd (signature_verification d c r) = Inr ()"
    and "object_is_whatsapp r" and "first_value (body r) = Inr val"
  shows "fst (webhook_post d c r) =
           Ack # fst (signature_verification d c r) @ fst (handle_value d c val) @
             (case snd (handle_value d c val) of
                Inr _ \<Rightarrow> [Log ''Processing completed successfully'']
              | Inl Returned \<Rightarrow> []
              | Inl (Thrown e) \<Rightarrow> [Log ''Error processing webhook:''])"
  using assms
  by (simp add: webhook_post_def process_webhook_def comp_simps bind_lift_Inr
      split: sum.splits interrupt.splits)


lemma no_uncaught: "snd (webhook_post d c r) = None"
  by (simp add: webhook_post_def comp_simps split: sum.splits interrupt.splits)



section \<open>Translation and reply\<close>













section \<open>The branches of a value\<close>

lemma handle_value_no_messages:
  assumes "read_prop val ''messages'' = Inr messages" and "\<not> truthy messages"
  shows "handle_value d c val =
           (case read_prop val ''statuses'' of
              Inl i \<Rightarrow> ([], Inl i)
            | Inr statuses \<Rightarrow>
                if truthy statuses then ([Log ''Received status update:''], Inr ())
                else ([], Inr ()))"
  using assms
  by (simp add: handle_value_def bind_lift_Inr bind_lift_Inl emit_def ret_def split: sum.splits)






section \<open>Failures stay inside the handler\<close>



section \<open>Status updates\<close>

text \<open>
  C7. For every envelope whose first value has a \<^verbatim>\<open>statuses\<close> sequence and no
  \<^verbatim>\<open>messages\<close>, the value is handled as a status update (one log line and nothing
  else), the run makes no translation call and no send, and it ends without an
  exception; when validation and the signature block let the request pass, the run is
  the acknowledgement, the log lines of the signature block, the status line and the
  completion line.
\<close>

theorem status_update_makes_no_calls:
  assumes "first_value (body r) = Inr val"
    and "read_prop val ''messages'' = Inr None"
    and "read_prop val ''statuses'' = Inr (Some (JArr ss))"
  shows "handle_value d c val = ([Log ''Received status update:''], Inr ()) \<and>
         translate_calls (fst (webhook_post d c r)) = [] \<and>
         send_calls (fst (webhook_post d c r)) = [] \<and>
         snd (webhook_post d c r) = None \<and>
         (validation_ok r \<and> snd (signature_verification d c r) = Inr () \<and>
          object_is_whatsapp r \<longrightarrow>
            fst (webhook_post d c r) =
              Ack # fst (signature_verification d c r) @
                [Log ''Received status update:'', Log ''Processing completed successfully''])"
proof -
  have hv: "handle_value d c val = ([Log ''Received status update:''], Inr ())"
    using assms(2,3) by (simp add: handle_value_no_messages)
  have "translate_calls (fst (webhook_post d c r)) = []"
    unfolding translate_calls_def using assms(1) hv by (subst webhook_post_filter) simp_all
  moreover have "send_calls (fst (webhook_post d c r)) = []"
    unfolding send_calls_def using assms(1) hv by (subst webhook_post_filter) simp_all
  moreover have "validation_ok r \<and> snd (signature_verification d c r) = Inr () \<and>
          object_is_whatsapp r \<longrightarrow>
            fst (webhook_post d c r) =
              Ack # fst (signature_verification d c r) @
                [Log ''Received status update:'', Log ''Processing completed successfully'']"
    using assms(1) hv by (auto simp add: webhook_post_handled)
  ultimately show ?thesis using hv no_uncaught by simp
qed

theorem status_update_makes_no_calls_witness:
  "first_value (body (request_of (Some ''invalid'') (envelope_of status_value))) =
     Inr (Some status_value) \<and>
   read_prop (Some status_value) ''messages'' = Inr None \<and>
   read_prop (Some status_value) ''statuses'' =
     Inr (Some (JArr [JObj [(''status'', JStr ''delivered'')]])) \<and>
   validation_ok (request_of (Some ''invalid'') (envelope_of status_value)) \<and>
   snd (signature_verification stub_deps production_config
          (request_of (Some ''invalid'') (envelope_of status_value))) = Inr () \<and>
   object_is_whatsapp (request_of (Some ''invalid'') (envelope_of status_value)) \<and>
   translate_calls (fst (webhook_post stub_deps production_config
          (request_of (Some ''invalid'') (envelope_of status_value)))) = [] \<and>
   send_calls (fst (webhook_post stub_deps production_config
          (request_of (Some ''invalid'') (envelope_of status_value)))) = [] \<and>
   fst (webhook_post stub_deps production_config
          (request_of (Some ''invalid'') (envelope_of status_value))) =
     [Ack,
      Log ''Invalid signature received, but continuing due to DEBUG mode'',
      Log ''Received status update:'',
      Log ''Processing completed successfully'']"
proof -
  have fv: "first_value (body (request_of (Some ''invalid'') (envelope_of status_value))) =
      Inr (Some status_value)"
    by (simp add: request_of_def envelope_of_def first_value_def)
  have ms: "read_prop (Some status_value) ''messages'' = Inr None"
    by (simp add: status_value_def)
  have st: "read_prop (Some status_value) ''statuses'' =
      Inr (Some (JArr [JObj [(''status'', JStr ''delivered'')]]))"
    by (simp add: status_value_def)
  have ok: "validation_ok (request_of (Some ''invalid'') (envelope_of status_value))"
    by code_simp
  have sv: "snd (signature_verification stub_deps production_config
          (request_of (Some ''invalid'') (envelope_of status_value))) = Inr ()"
    by (rule sigver_debug) (simp add: production_config_def source_config_def)
  have ob: "object_is_whatsapp (request_of (Some ''invalid'') (envelope_of status_value))"
    by (simp add: object_is_whatsapp_def request_of_def envelope_of_def)
  have lg: "fst (signature_verification stub_deps production_config
          (request_of (Some ''invalid'') (envelope_of status_value))) =
      [Log ''Invalid signature received, but continuing due to DEBUG mode'']"
    by code_simp
  show ?thesis
    using fv ms st ok sv ob lg
      status_update_makes_no_calls [OF fv ms st, of stub_deps production_config]
    by (simp add: translate_calls_def send_calls_def)
qed

section \<open>What validation guarantees\<close>











section \<open>Signature enforcement\<close>




section \<open>The allow-list\<close>

lemma allowed_list_example:
  "ALLOWED_PHONE_NUMBERS_env c = Some ''15551234567'' \<Longrightarrow>
     ALLOWED_PHONE_NUMBERS c = [''15551234567'']"
  by (simp add: ALLOWED_PHONE_NUMBERS_def normalize_num_def is_digit_def startsWith1_def)

lemma normalize_num_starts: "startsWith1 (normalize_num num)"
  by (simp add: normalize_num_def startsWith1_def Let_def)

lemma allowed_starts_with_1: "s \<in> set (ALLOWED_PHONE_NUMBERS c) \<Longrightarrow> startsWith1 s"
  by (auto simp add: ALLOWED_PHONE_NUMBERS_def normalize_num_starts split: option.splits)

text \<open>
  C4, as the code has it. The sender is compared as received with the entries of the
  allow-list, which were normalized at start-up: with the allow-list
  \<^verbatim>\<open>15551234567\<close> the only sender on the list is the string \<^verbatim>\<open>15551234567\<close>, and every
  other sender is bypassed when \<^verbatim>\<open>DEBUG\<close> is on and denied when it is off. Every entry
  of an allow-list starts with \<^verbatim>\<open>1\<close>, so a sender that does not is on no list.
\<close>

theorem authorize_verbatim:
  "(ALLOWED_PHONE_NUMBERS_env c = Some ''15551234567'' \<longrightarrow>
      authorize c sender =
        (if sender = Some (JStr ''15551234567'') then Allowed
         else if DEBUG c then Bypassed else Denied)) \<and>
   (\<not> startsWith1 s \<longrightarrow> authorize c (Some (JStr s)) \<noteq> Allowed)"
proof (intro conjI impI)
  assume "ALLOWED_PHONE_NUMBERS_env c = Some ''15551234567''"
  then have "ALLOWED_PHONE_NUMBERS c = [''15551234567'']" by (rule allowed_list_example)
  then show "authorize c sender =
        (if sender = Some (JStr ''15551234567'') then Allowed
         else if DEBUG c then Bypassed else Denied)"
    by (auto simp add: authorize_def array_includes_def split: option.splits json.splits)
next
  assume "\<not> startsWith1 s"
  then have "\<not> array_includes (ALLOWED_PHONE_NUMBERS c) (Some (JStr s))"
    by (auto simp add: array_includes_def dest: allowed_starts_with_1)
  then show "authorize c (Some (JStr s)) \<noteq> Allowed"
    by (simp add: authorize_def)
qed

theorem authorize_verbatim_witness:
  "ALLOWED_PHONE_NUMBERS_env strict_config = Some ''15551234567'' \<and>
   authorize strict_config (Some (JStr ''15551234567'')) = Allowed \<and>
   authorize strict_config (Some (JStr ''19998887777'')) = Denied \<and>
   \<not> startsWith1 ''5551234567'' \<and>
   authorize strict_config (Some (JStr ''5551234567'')) \<noteq> Allowed"
proof -
  have env: "ALLOWED_PHONE_NUMBERS_env strict_config = Some ''15551234567''"
    by (simp add: strict_config_def production_config_def source_config_def)
  have off: "\<not> DEBUG strict_config"
    by (simp add: strict_config_def)
  have ns: "\<not> startsWith1 ''5551234567''"
    by (simp add: startsWith1_def)
  show ?thesis
    using env off ns
      authorize_verbatim [of strict_config "Some (JStr ''15551234567'')" "''5551234567''"]
      authorize_verbatim [of strict_config "Some (JStr ''19998887777'')" "''5551234567''"]
    by simp
qed

text \<open>
  The claim as stated fails: the sender without the leading country digit is not on the
  list (denied with \<^verbatim>\<open>DEBUG\<close> off), and with the configuration of the source an unlisted
  sender is bypassed, not denied.
\<close>

theorem authorize_counterexample:
  "ALLOWED_PHONE_NUMBERS production_config = [''15551234567''] \<and>
   \<not> array_includes (ALLOWED_PHONE_NUMBERS production_config) (Some (JStr ''5551234567'')) \<and>
   authorize strict_config (Some (JStr ''5551234567'')) = Denied \<and>
   authorize production_config (Some (JStr ''19998887777'')) = Bypassed"
  by code_simp

section \<open>Senders that are not on the list\<close>





section \<open>Messages without text, messages with empty text\<close>




section \<open>The bytes that are signed\<close>

lemma matching_ignores_wire_bytes:
  "signature_matches d c (r\<lparr>rawBody := raw\<rparr>) signature = signature_matches d c r signature"
  by (simp add: signature_matches_def expectedSignature1_def expectedSignature2_def
      bodyString_def)

lemma verification_ignores_wire_bytes:
  "signature_verification d c (r\<lparr>rawBody := raw\<rparr>) = signature_verification d c r"
  by (simp add: signature_verification_def matching_ignores_wire_bytes split: option.splits)

text \<open>
  C2 at a request the code can receive. The bytes on the wire have a space after the
  colon and the header is the digest of exactly those bytes. The verifier hashes
  \<^verbatim>\<open>JSON.stringify(req.body)\<close>, which has no space, so the header does not match: with
  \<^verbatim>\<open>DEBUG\<close> off the request is dropped as invalid, with \<^verbatim>\<open>DEBUG\<close> on it is logged as
  invalid.
\<close>

theorem reserialized_bytes_are_signed:
  "rawBody spaced_request = ''{'' @ quote ''object'' @ '': '' @
      quote ''whatsapp_business_account'' @ ''}'' \<and>
   bodyString spaced_request = ''{'' @ quote ''object'' @ '':'' @
      quote ''whatsapp_business_account'' @ ''}'' \<and>
   bodyString spaced_request \<noteq> rawBody spaced_request \<and>
   signature_header spaced_request =
     Some (''sha256='' @ hmac_sha256_hex stub_deps (WHATSAPP_TOKEN strict_config)
             (rawBody spaced_request)) \<and>
   \<not> signature_matches stub_deps strict_config spaced_request
       (''sha256='' @ hmac_sha256_hex stub_deps (WHATSAPP_TOKEN strict_config)
          (rawBody spaced_request)) \<and>
   fst (webhook_post stub_deps strict_config spaced_request) =
     [Ack, Log ''Invalid signature received''] \<and>
   fst (signature_verification stub_deps production_config spaced_request) =
     [Log ''Invalid signature received, but continuing due to DEBUG mode'']"
  by code_simp

end
